theory Spec2Isabelle
  imports Main
begin

section \<open>Syntax trees\<close>

text \<open>
  The transforms work on the syntax tree the parser hands over. A node is modelled with the
  fields the transforms read; \<open>jsval\<close> is the type of the \<open>value\<close> field of a literal and
  of every other scalar the code computes with (\<open>VUndefined\<close> for a missing property).
  Numeric literals are restricted to naturals. \<open>TSImportEqualsDeclaration x m\<close> is the
  statement \<open>import x = require('m')\<close>.
\<close>

datatype jsval = VUndefined | VNull | VBool bool | VNum nat | VStr string

datatype node =
    File node
  | Program "node list"
  | ImportDeclaration "node list" node
  | ImportSpecifier node node
  | ImportDefaultSpecifier node
  | TSImportEqualsDeclaration string string
  | VariableDeclaration string "node list"
  | VariableDeclarator node "node option"
  | ExpressionStatement node
  | ReturnStatement "node option"
  | IfStatement node node "node option"
  | BlockStatement "node list"
  | Identifier string
  | Literal jsval
  | StringLiteral string
  | NumericLiteral nat
  | MemberExpression node node bool
  | CallExpression node "node list"
  | ArrowFunctionExpression "node list" node
  | RestElement node
  | TSAsExpression node node
  | TSAnyKeyword
  | BinaryExpression string node node
  | LogicalExpression string node node
  | UnaryExpression string node
  | AssignmentExpression string node node
  | ObjectExpression "node list"
  | Property node node
  | ArrayExpression "node list"

text \<open>
  Errors: \<open>TypeError\<close> is JavaScript's error on reading a property of \<open>undefined\<close>;
  \<open>BuilderError\<close> is the node builders' refusal of a field value of the wrong type
  (an \<open>undefined\<close> where a node, a string or a literal value is required).
\<close>

datatype error = TypeError | BuilderError

fun bindE :: "error + 'a \<Rightarrow> ('a \<Rightarrow> error + 'b) \<Rightarrow> error + 'b" where
  "bindE (Inl e) f = Inl e"
| "bindE (Inr x) f = f x"

fun mapE :: "('a \<Rightarrow> error + 'b) \<Rightarrow> 'a list \<Rightarrow> error + 'b list" where
  "mapE f [] = Inr []"
| "mapE f (x # xs) =
     (case f x of Inl e \<Rightarrow> Inl e
      | Inr y \<Rightarrow> (case mapE f xs of Inl e \<Rightarrow> Inl e | Inr ys \<Rightarrow> Inr (y # ys)))"

text \<open>Property reads; a property the node does not have reads as undefined (\<open>None\<close>).\<close>

fun name_of :: "node \<Rightarrow> string option" where
  "name_of (Identifier s) = Some s"
| "name_of _ = None"

fun value_of :: "node \<Rightarrow> jsval" where
  "value_of (Literal v) = v"
| "value_of (StringLiteral s) = VStr s"
| "value_of (NumericLiteral n) = VNum n"
| "value_of _ = VUndefined"

fun callee_of :: "node \<Rightarrow> node option" where
  "callee_of (CallExpression c as) = Some c"
| "callee_of _ = None"

fun arguments_of :: "node \<Rightarrow> node list" where
  "arguments_of (CallExpression c as) = as"
| "arguments_of _ = []"

fun object_of :: "node \<Rightarrow> node option" where
  "object_of (MemberExpression ob p c) = Some ob"
| "object_of _ = None"

fun property_of :: "node \<Rightarrow> node option" where
  "property_of (MemberExpression ob p c) = Some p"
| "property_of _ = None"

fun nth_opt :: "'a list \<Rightarrow> nat \<Rightarrow> 'a option" where
  "nth_opt [] i = None"
| "nth_opt (x # xs) 0 = Some x"
| "nth_opt (x # xs) (Suc i) = nth_opt xs i"

section \<open>Stub Configuration Aggregator (migrate-sinon-to-node-test.ts)\<close>

subsection \<open>Configuration entries\<close>

text \<open>
  \<open>interface StubReplacement { args?: any[]; returnValue?: any }\<close>. A field is \<open>None\<close>
  while the property is absent from the object. \<open>returnValue\<close> is set from
  \<open>arguments[0]\<close>, which is undefined for \<open>returns()\<close>: then the property is present,
  holding undefined (\<open>Some None\<close>).
\<close>

record StubReplacement =
  args :: "node list option"
  returnValue :: "node option option"

definition emptyChain :: StubReplacement where
  "emptyChain = \<lparr>args = None, returnValue = None\<rparr>"

text \<open>Reading \<open>chain.returnValue\<close>.\<close>

definition rv :: "StubReplacement \<Rightarrow> node option" where
  "rv c = (case returnValue c of None \<Rightarrow> None | Some v \<Rightarrow> v)"

text \<open>\<open>Object.keys(chain).length > 0\<close> (line 255).\<close>

definition hasKeys :: "StubReplacement \<Rightarrow> bool" where
  "hasKeys c = (args c \<noteq> None \<or> returnValue c \<noteq> None)"

text \<open>
  A collected method call is the pair \<open>{ methodName, callPath }\<close> (line 226): the name of
  the callee's property (undefined when the property is no identifier) and the call node.
\<close>

type_synonym methodCall = "string option \<times> node"

text \<open>Lines 224-233: a group is closed by each \<open>returns\<close> or \<open>resolves\<close>; calls after the
  last of them stay in \<open>currentChain\<close> and are never pushed.\<close>

fun chainGroups :: "methodCall list \<Rightarrow> methodCall list \<Rightarrow> methodCall list list" where
  "chainGroups currentChain [] = []"
| "chainGroups currentChain (m # ms) =
     (if fst m = Some ''returns'' \<or> fst m = Some ''resolves''
      then (currentChain @ [m]) # chainGroups [] ms
      else chainGroups (currentChain @ [m]) ms)"

definition promiseResolve :: "node list \<Rightarrow> node" where
  "promiseResolve as =
     CallExpression (MemberExpression (Identifier ''Promise'') (Identifier ''resolve'') False) as"

text \<open>Lines 239-253: one step of \<open>group.forEach\<close>.\<close>

definition applyCall :: "StubReplacement \<Rightarrow> methodCall \<Rightarrow> StubReplacement" where
  "applyCall chain m =
     (if fst m = Some ''withArgs'' then chain\<lparr>args := Some (arguments_of (snd m))\<rparr>
      else if fst m = Some ''returns''
        then chain\<lparr>returnValue := Some (nth_opt (arguments_of (snd m)) 0)\<rparr>
      else if fst m = Some ''resolves''
        then chain\<lparr>returnValue := Some (Some (promiseResolve (arguments_of (snd m))))\<rparr>
      else chain)"

definition buildChain :: "methodCall list \<Rightarrow> StubReplacement" where
  "buildChain grp = foldl applyCall emptyChain grp"

text \<open>Lines 236-258: the entries of one key, in the order of the groups.\<close>

definition buildChains :: "methodCall list \<Rightarrow> StubReplacement list" where
  "buildChains methodCalls = filter hasKeys (map buildChain (chainGroups [] methodCalls))"

subsection \<open>The synthesized replacement function\<close>

text \<open>\<open>chain.args && chain.args.length > 0\<close> (lines 334 and 371).\<close>

definition hasMatchers :: "StubReplacement \<Rightarrow> bool" where
  "hasMatchers c = (case args c of None \<Rightarrow> False | Some as \<Rightarrow> as \<noteq> [])"

definition argsLengthTest :: node where
  "argsLengthTest =
     BinaryExpression ''>'' (MemberExpression (Identifier ''args'') (Identifier ''length'') False)
       (Literal (VNum 0))"

definition argTest :: "nat \<Rightarrow> node \<Rightarrow> node" where
  "argTest index arg =
     BinaryExpression ''==='' (MemberExpression (Identifier ''args'') (Literal (VNum index)) True) arg"

text \<open>Lines 339-364: \<open>chain.args.reduce((expr, arg, index) => ..., null)\<close>, from \<open>index\<close> on.\<close>

fun reduceArgs :: "node \<Rightarrow> nat \<Rightarrow> node list \<Rightarrow> node" where
  "reduceArgs expr index [] = expr"
| "reduceArgs expr index (arg # rest) =
     reduceArgs
       (if index = 0 then LogicalExpression ''&&'' argsLengthTest (argTest index arg)
        else LogicalExpression ''&&'' expr (argTest index arg))
       (Suc index) rest"

definition undefinedId :: node where
  "undefinedId = Identifier ''undefined''"

text \<open>\<open>j.returnStatement(e)\<close>: the builder refuses an undefined argument.\<close>

definition returnStatement :: "node option \<Rightarrow> error + node" where
  "returnStatement e = (case e of None \<Rightarrow> Inl BuilderError | Some x \<Rightarrow> Inr (ReturnStatement (Some x)))"

text \<open>Lines 332-369: the statement emitted for one entry.\<close>

definition chainStatement :: "StubReplacement \<Rightarrow> error + node" where
  "chainStatement chain =
     (case args chain of
        None \<Rightarrow> returnStatement (rv chain)
      | Some as \<Rightarrow>
          if as = [] then returnStatement (rv chain)
          else Inr (IfStatement (reduceArgs (Literal VNull) 0 as)
                 (BlockStatement
                    [ReturnStatement (Some (case rv chain of None \<Rightarrow> undefinedId | Some e \<Rightarrow> e))])
                 None))"

text \<open>Lines 331-374: the body of the arrow function. The \<open>filter(chain => chain)\<close> of line
  332 keeps every entry, an object being truthy.\<close>

definition mockImplBody :: "StubReplacement list \<Rightarrow> error + node list" where
  "mockImplBody currentTestChains =
     bindE (mapE chainStatement currentTestChains) (\<lambda>stmts.
       Inr (stmts @ (if list_ex hasMatchers currentTestChains
                     then [ReturnStatement (Some undefinedId)] else [])))"

definition mockImpl :: "StubReplacement list \<Rightarrow> error + node" where
  "mockImpl currentTestChains =
     bindE (mockImplBody currentTestChains) (\<lambda>body.
       Inr (ArrowFunctionExpression [RestElement (Identifier ''args'')] (BlockStatement body)))"

section \<open>Paths and collections\<close>

text \<open>
  The transforms reach the tree through the collection interface: \<open>root.find(type, filter)\<close>
  gives the paths of the matching nodes in the order of a pre-order walk, a path knows its
  node and the paths of its ancestors, and \<open>replaceWith\<close>, \<open>remove\<close> and \<open>insertBefore\<close>
  change the tree in place. Here a path is the position of a node (the child indices from
  the root), the node, and its ancestors from the parent up to the root.
\<close>

fun children :: "node \<Rightarrow> node list" where
  "children (File p) = [p]"
| "children (Program body) = body"
| "children (ImportDeclaration specifiers source) = specifiers @ [source]"
| "children (ImportSpecifier imported local) = [imported, local]"
| "children (ImportDefaultSpecifier local) = [local]"
| "children (VariableDeclaration kind declarations) = declarations"
| "children (VariableDeclarator ident init) = ident # (case init of None \<Rightarrow> [] | Some e \<Rightarrow> [e])"
| "children (ExpressionStatement e) = [e]"
| "children (ReturnStatement argument) = (case argument of None \<Rightarrow> [] | Some e \<Rightarrow> [e])"
| "children (IfStatement t c alternate) = t # c # (case alternate of None \<Rightarrow> [] | Some e \<Rightarrow> [e])"
| "children (BlockStatement body) = body"
| "children (MemberExpression ob p computed) = [ob, p]"
| "children (CallExpression callee as) = callee # as"
| "children (ArrowFunctionExpression params body) = params @ [body]"
| "children (RestElement argument) = [argument]"
| "children (TSAsExpression e t) = [e, t]"
| "children (BinaryExpression op l r) = [l, r]"
| "children (LogicalExpression op l r) = [l, r]"
| "children (UnaryExpression op e) = [e]"
| "children (AssignmentExpression op l r) = [l, r]"
| "children (ObjectExpression properties) = properties"
| "children (Property k v) = [k, v]"
| "children (ArrayExpression elements) = elements"
| "children _ = []"

text \<open>The node with its children exchanged for \<open>cs\<close>, one for one.\<close>

definition withChildren :: "node \<Rightarrow> node list \<Rightarrow> node" where
  "withChildren n cs =
     (if length cs \<noteq> length (children n) then n
      else case n of
        File p \<Rightarrow> File (cs ! 0)
      | Program body \<Rightarrow> Program cs
      | ImportDeclaration specifiers source \<Rightarrow> ImportDeclaration (butlast cs) (last cs)
      | ImportSpecifier imported local \<Rightarrow> ImportSpecifier (cs ! 0) (cs ! 1)
      | ImportDefaultSpecifier local \<Rightarrow> ImportDefaultSpecifier (cs ! 0)
      | VariableDeclaration kind declarations \<Rightarrow> VariableDeclaration kind cs
      | VariableDeclarator ident init \<Rightarrow>
          VariableDeclarator (cs ! 0) (case init of None \<Rightarrow> None | Some e \<Rightarrow> Some (cs ! 1))
      | ExpressionStatement e \<Rightarrow> ExpressionStatement (cs ! 0)
      | ReturnStatement argument \<Rightarrow>
          ReturnStatement (case argument of None \<Rightarrow> None | Some e \<Rightarrow> Some (cs ! 0))
      | IfStatement t c alternate \<Rightarrow>
          IfStatement (cs ! 0) (cs ! 1) (case alternate of None \<Rightarrow> None | Some e \<Rightarrow> Some (cs ! 2))
      | BlockStatement body \<Rightarrow> BlockStatement cs
      | MemberExpression ob p computed \<Rightarrow> MemberExpression (cs ! 0) (cs ! 1) computed
      | CallExpression callee as \<Rightarrow> CallExpression (hd cs) (tl cs)
      | ArrowFunctionExpression params body \<Rightarrow> ArrowFunctionExpression (butlast cs) (last cs)
      | RestElement argument \<Rightarrow> RestElement (cs ! 0)
      | TSAsExpression e t \<Rightarrow> TSAsExpression (cs ! 0) (cs ! 1)
      | BinaryExpression op l r \<Rightarrow> BinaryExpression op (cs ! 0) (cs ! 1)
      | LogicalExpression op l r \<Rightarrow> LogicalExpression op (cs ! 0) (cs ! 1)
      | UnaryExpression op e \<Rightarrow> UnaryExpression op (cs ! 0)
      | AssignmentExpression op l r \<Rightarrow> AssignmentExpression op (cs ! 0) (cs ! 1)
      | ObjectExpression properties \<Rightarrow> ObjectExpression cs
      | Property k v \<Rightarrow> Property (cs ! 0) (cs ! 1)
      | ArrayExpression elements \<Rightarrow> ArrayExpression cs
      | _ \<Rightarrow> n)"

fun dropNth :: "nat \<Rightarrow> 'a list \<Rightarrow> 'a list" where
  "dropNth i [] = []"
| "dropNth 0 (x # xs) = xs"
| "dropNth (Suc i) (x # xs) = x # dropNth i xs"

text \<open>
  Pruning child \<open>i\<close>. A child held in a list (a statement of a body, an argument, a
  declarator, a specifier, an element) is taken out of the list. Pruning the only value of
  a field is not modelled: the node stays as it is.
\<close>

definition removeChild :: "node \<Rightarrow> nat \<Rightarrow> node" where
  "removeChild n i =
     (case n of
        Program body \<Rightarrow> Program (dropNth i body)
      | BlockStatement body \<Rightarrow> BlockStatement (dropNth i body)
      | VariableDeclaration kind declarations \<Rightarrow> VariableDeclaration kind (dropNth i declarations)
      | ImportDeclaration specifiers source \<Rightarrow>
          (if i < length specifiers then ImportDeclaration (dropNth i specifiers) source else n)
      | CallExpression callee as \<Rightarrow> (if i = 0 then n else CallExpression callee (dropNth (i - 1) as))
      | ArrowFunctionExpression params body \<Rightarrow>
          (if i < length params then ArrowFunctionExpression (dropNth i params) body else n)
      | ObjectExpression properties \<Rightarrow> ObjectExpression (dropNth i properties)
      | ArrayExpression elements \<Rightarrow> ArrayExpression (dropNth i elements)
      | _ \<Rightarrow> n)"

text \<open>\<open>j(path).replaceWith(new)\<close> and \<open>j(path).remove()\<close>, for the path at position \<open>pos\<close>.\<close>

fun replaceAt :: "node \<Rightarrow> nat list \<Rightarrow> node \<Rightarrow> node" where
  "replaceAt n [] new = new"
| "replaceAt n (i # is) new =
     (case nth_opt (children n) i of
        None \<Rightarrow> n
      | Some c \<Rightarrow> withChildren n ((children n)[i := replaceAt c is new]))"

fun removeAt :: "node \<Rightarrow> nat list \<Rightarrow> node" where
  "removeAt n [] = n"
| "removeAt n [i] = removeChild n i"
| "removeAt n (i # is) =
     (case nth_opt (children n) i of
        None \<Rightarrow> n
      | Some c \<Rightarrow> withChildren n ((children n)[i := removeAt c is]))"

datatype path = Path (pos: "nat list") (node: node) (ancestors: "node list")

text \<open>The node and its ancestors, innermost first: what a loop over \<open>path.parent\<close> sees.\<close>

definition chain :: "path \<Rightarrow> node list" where
  "chain p = node p # ancestors p"

definition parent :: "path \<Rightarrow> path option" where
  "parent p = (case ancestors p of [] \<Rightarrow> None | a # as \<Rightarrow> Some (Path (butlast (pos p)) a as))"

function pathsFrom :: "nat list \<Rightarrow> node list \<Rightarrow> node \<Rightarrow> path list"
  and pathsList :: "nat list \<Rightarrow> node list \<Rightarrow> nat \<Rightarrow> node list \<Rightarrow> path list" where
  "pathsFrom ps anc n = Path ps n anc # pathsList ps (n # anc) 0 (children n)"
| "pathsList ps anc i [] = []"
| "pathsList ps anc i (c # cs) = pathsFrom (ps @ [i]) anc c @ pathsList ps anc (Suc i) cs"
  by pat_completeness auto
termination
proof (relation "measure (\<lambda>x. case x of
          Inl (ps, anc, n) \<Rightarrow> 4 * size n + 1
        | Inr (ps, anc, i, cs) \<Rightarrow> sum_list (map (\<lambda>c. 4 * size c + 2) cs))")
  have l: "0 < k \<Longrightarrow> (\<Sum>c\<leftarrow>cs. Suc (Suc (4 * size c))) < k + 4 * size_list size cs"
    for cs :: "node list" and k
    by (induction cs) auto
  have "sum_list (map (\<lambda>c. 4 * size c + 2) (children n)) < 4 * size n + 1" for n
    by (cases n) (auto split: option.splits simp: l)
  then show "\<And>ps anc n. ((Inr (ps, n # anc, 0, children n)), Inl (ps, anc, n)) \<in> measure (\<lambda>x. case x of
          Inl (ps, anc, n) \<Rightarrow> 4 * size n + 1
        | Inr (ps, anc, i, cs) \<Rightarrow> sum_list (map (\<lambda>c. 4 * size c + 2) cs))"
    by simp
qed auto

declare pathsFrom.simps [simp del]

text \<open>\<open>root.find(...)\<close> with a filter on the path.\<close>

definition findPaths :: "(path \<Rightarrow> bool) \<Rightarrow> node \<Rightarrow> path list" where
  "findPaths P root = filter P (pathsFrom [] [] root)"

text \<open>
  \<open>collection.forEach(callback)\<close> for a callback that changes the tree. The collection
  holds the paths found before the first change, and the callback runs once for each.
  The model runs as many rounds and takes the next path from the tree as it then stands:
  the first match not yet visited. A callback that changes the tree removes or replaces
  the node it was called for (\<open>Some\<close> of the new tree); one that leaves the tree alone
  (\<open>None\<close>) leaves its node to be skipped, \<open>k\<close> counting the skipped ones.
\<close>

fun forEachLoop :: "nat \<Rightarrow> nat \<Rightarrow> (path \<Rightarrow> bool) \<Rightarrow> (path \<Rightarrow> node \<Rightarrow> error + node option)
                    \<Rightarrow> node \<Rightarrow> error + node" where
  "forEachLoop 0 k P callback root = Inr root"
| "forEachLoop (Suc n) k P callback root =
     (case nth_opt (findPaths P root) k of
        None \<Rightarrow> Inr root
      | Some p \<Rightarrow>
          (case callback p root of
             Inl e \<Rightarrow> Inl e
           | Inr None \<Rightarrow> forEachLoop n (Suc k) P callback root
           | Inr (Some root') \<Rightarrow> forEachLoop n k P callback root'))"

definition forEach :: "(path \<Rightarrow> bool) \<Rightarrow> (path \<Rightarrow> node \<Rightarrow> error + node option) \<Rightarrow> node \<Rightarrow> error + node" where
  "forEach P callback root = forEachLoop (length (findPaths P root)) 0 P callback root"

text \<open>\<open>collection.remove()\<close>.\<close>

definition removeAll :: "(path \<Rightarrow> bool) \<Rightarrow> node \<Rightarrow> error + node" where
  "removeAll P root = forEach P (\<lambda>p r. Inr (Some (removeAt r (pos p)))) root"

text \<open>\<open>root.find(j.Program).get('body', 0).insertBefore(stmt)\<close>: \<open>get\<close> on an empty
  collection throws.\<close>

definition isProgram :: "path \<Rightarrow> bool" where
  "isProgram p = (case node p of Program body \<Rightarrow> True | _ \<Rightarrow> False)"

definition insertFirst :: "node \<Rightarrow> node \<Rightarrow> error + node" where
  "insertFirst stmt root =
     (case findPaths isProgram root of
        [] \<Rightarrow> Inl TypeError
      | p # ps \<Rightarrow> Inr (replaceAt root (pos p) (Program (stmt # children (node p)))))"

subsection \<open>Scalars\<close>

text \<open>Truthiness, \<open>a || b\<close>, and the text a template string gives a value.\<close>

fun truthy :: "jsval \<Rightarrow> bool" where
  "truthy VUndefined = False"
| "truthy VNull = False"
| "truthy (VBool b) = b"
| "truthy (VNum n) = (n \<noteq> 0)"
| "truthy (VStr s) = (s \<noteq> [])"

definition jsOr :: "jsval \<Rightarrow> jsval \<Rightarrow> jsval" where
  "jsOr a b = (if truthy a then a else b)"

fun showNat :: "nat \<Rightarrow> string" where
  "showNat n = (if n < 10 then [char_of (48 + n)] else showNat (n div 10) @ [char_of (48 + n mod 10)])"

fun toStr :: "jsval \<Rightarrow> string" where
  "toStr VUndefined = ''undefined''"
| "toStr VNull = ''null''"
| "toStr (VBool b) = (if b then ''true'' else ''false'')"
| "toStr (VNum n) = showNat n"
| "toStr (VStr s) = s"

text \<open>\<open>node.name\<close> as a value.\<close>

definition nameVal :: "node \<Rightarrow> jsval" where
  "nameVal n = (case name_of n of None \<Rightarrow> VUndefined | Some s \<Rightarrow> VStr s)"

subsection \<open>Calling the synthesized function\<close>






text \<open>An entry's result: its result expression, or \<open>undefined\<close> when it has none.\<close>

definition resultOf :: "StubReplacement \<Rightarrow> node" where
  "resultOf c = (case rv c of None \<Rightarrow> undefinedId | Some e \<Rightarrow> e)"

text \<open>An entry for which a statement can be built: one without matchers needs a result
  expression, since \<open>j.returnStatement\<close> is handed \<open>chain.returnValue\<close> as it is.\<close>

definition emittable :: "StubReplacement \<Rightarrow> bool" where
  "emittable c = (hasMatchers c \<or> rv c \<noteq> None)"


section \<open>The sinon migration (migrate-sinon-to-node-test.ts)\<close>

subsection \<open>Imports (lines 13-58)\<close>

definition isImportFrom :: "string \<Rightarrow> path \<Rightarrow> bool" where
  "isImportFrom m p =
     (case node p of ImportDeclaration specifiers source \<Rightarrow> value_of source = VStr m | _ \<Rightarrow> False)"

definition mockSpecifier :: node where
  "mockSpecifier = ImportSpecifier (Identifier ''mock'') (Identifier ''mock'')"

definition mocksSpecifier :: node where
  "mocksSpecifier = ImportSpecifier (Identifier ''mocks'') (Identifier ''mocks'')"

text \<open>Lines 46-55, for one \<open>node:test\<close> declaration: the test is for \<open>mocks\<close>, the
  specifier pushed is \<open>mock\<close>.\<close>

definition hasMocks :: "node list \<Rightarrow> bool" where
  "hasMocks specifiers =
     list_ex (\<lambda>spec. case spec of ImportSpecifier imported local \<Rightarrow> name_of imported = Some ''mocks''
                      | _ \<Rightarrow> False) specifiers"

definition addMock :: "node \<Rightarrow> node" where
  "addMock n =
     (case n of
        ImportDeclaration specifiers source \<Rightarrow>
          if hasMocks specifiers then n else ImportDeclaration (specifiers @ [mockSpecifier]) source
      | _ \<Rightarrow> n)"

definition sinonImports :: "node \<Rightarrow> error + node" where
  "sinonImports root =
     (if findPaths (isImportFrom ''sinon'') root = [] then Inr root
      else bindE (removeAll (isImportFrom ''sinon'') root) (\<lambda>root.
        let nodeTestImports = findPaths (isImportFrom ''node:test'') root in
        if nodeTestImports = []
        then insertFirst (ImportDeclaration [mockSpecifier, mocksSpecifier] (StringLiteral ''node:test'')) root
        else Inr (foldl (\<lambda>r p. replaceAt r (pos p) (addMock (node p))) root nodeTestImports)))"

subsection \<open>The sandbox declaration (lines 60-74)\<close>

text \<open>A call \<open>ob.prop(...)\<close> with both names identifiers.\<close>

definition isIdMemberCall :: "string \<Rightarrow> string \<Rightarrow> node \<Rightarrow> bool" where
  "isIdMemberCall ob prop n =
     (case n of
        CallExpression (MemberExpression o' p c) as \<Rightarrow> name_of o' = Some ob \<and> name_of p = Some prop
      | _ \<Rightarrow> False)"

text \<open>A parsed declaration has at least one declarator; \<open>declarations[0].init\<close> is read.\<close>

definition isCreateSandbox :: "path \<Rightarrow> bool" where
  "isCreateSandbox p =
     (case node p of
        VariableDeclaration kind (VariableDeclarator ident (Some init) # ds) \<Rightarrow>
          isIdMemberCall ''sinon'' ''createSandbox'' init
      | _ \<Rightarrow> False)"

subsection \<open>Scope/Key Resolver\<close>

definition isTestCall :: "node \<Rightarrow> bool" where
  "isTestCall n =
     (case n of CallExpression callee as \<Rightarrow> name_of callee = Some ''it'' \<or> name_of callee = Some ''test''
      | _ \<Rightarrow> False)"

text \<open>
  Lines 119-129 (and 172-182, 294-304, 307-317): the loop
  \<open>while (testBlock && testBlock.parent)\<close> over a node and its ancestors. The test name
  starts as the empty string; the first enclosing call of \<open>it\<close> or \<open>test\<close> that has a parent
  sets it to \<open>arguments[0].value\<close>, a TypeError when the call has no argument.
\<close>

fun enclosingTestName :: "node list \<Rightarrow> error + jsval" where
  "enclosingTestName (n # p # rest) =
     (if isTestCall n
      then (case nth_opt (arguments_of n) 0 of None \<Rightarrow> Inl TypeError | Some a \<Rightarrow> Inr (value_of a))
      else enclosingTestName (p # rest))"
| "enclosingTestName _ = Inr (VStr [])"

text \<open>Lines 131 and 319: the template string
  \<open>`${className}.${methodName}.${testName}`\<close>.\<close>

definition key :: "jsval \<Rightarrow> jsval \<Rightarrow> jsval \<Rightarrow> string" where
  "key className methodName testName =
     toStr className @ ''.'' @ toStr methodName @ ''.'' @ toStr testName"

subsection \<open>First pass: collecting the stub chains (lines 77-264)\<close>

definition isStubCall :: "path \<Rightarrow> bool" where
  "isStubCall p = isIdMemberCall ''sandBox'' ''stub'' (node p)"

text \<open>Lines 96-97.\<close>

definition classNameOf :: "node \<Rightarrow> jsval" where
  "classNameOf firstArg =
     (case firstArg of
        MemberExpression ob p c \<Rightarrow> (case ob of Identifier s \<Rightarrow> VStr s | _ \<Rightarrow> VNull)
      | _ \<Rightarrow> VNull)"

text \<open>Lines 99-110.\<close>

definition methodNameOf :: "node \<Rightarrow> jsval" where
  "methodNameOf secondArg =
     (case secondArg of
        StringLiteral s \<Rightarrow> VStr s
      | Literal v \<Rightarrow> v
      | Identifier s \<Rightarrow> VStr s
      | TSAsExpression e t \<Rightarrow> (case e of StringLiteral s \<Rightarrow> VStr s | _ \<Rightarrow> nameVal e)
      | MemberExpression ob p c \<Rightarrow> nameVal p
      | _ \<Rightarrow> VUndefined)"

text \<open>Lines 143-146: from the ancestors of the stub call, the nearest
  \<open>VariableDeclarator\<close> with its own ancestors; \<open>[]\<close> when there is none.\<close>

fun findDeclarator :: "node list \<Rightarrow> node list" where
  "findDeclarator [] = []"
| "findDeclarator (a # as) =
     (case a of VariableDeclarator ident init \<Rightarrow> a # as | _ \<Rightarrow> findDeclarator as)"

text \<open>Lines 152-161: a call whose callee is a member of the identifier \<open>varName\<close>.\<close>

definition isReference :: "string \<Rightarrow> path \<Rightarrow> bool" where
  "isReference varName p =
     (case node p of
        CallExpression (MemberExpression ob pr c) as \<Rightarrow> name_of ob = Some varName
      | _ \<Rightarrow> False)"

definition isCall :: "node \<Rightarrow> bool" where
  "isCall n = (case n of CallExpression callee as \<Rightarrow> True | _ \<Rightarrow> False)"

definition isMember :: "node \<Rightarrow> bool" where
  "isMember n = (case n of MemberExpression ob p c \<Rightarrow> True | _ \<Rightarrow> False)"

text \<open>Lines 186-199: the calls chained onto a call, innermost first.\<close>

fun climbCalls :: "node list \<Rightarrow> node list" where
  "climbCalls (n # p # g # rest) =
     (if isCall n
      then n # (if isMember p \<and> isCall g then climbCalls (g # rest) else [])
      else [])"
| "climbCalls (n # rest) = (if isCall n then [n] else [])"
| "climbCalls [] = []"

text \<open>Lines 168-201: \<open>processCallChain\<close>, for the start node with its ancestors (\<open>[]\<close> for a
  null start) and the \<open>testName\<close> of the stub; the result is \<open>methodCalls\<close> afterwards.\<close>

definition processCallChain :: "jsval \<Rightarrow> node list \<Rightarrow> node list \<Rightarrow> error + node list" where
  "processCallChain testName startNode methodCalls =
     bindE (enclosingTestName startNode) (\<lambda>chainTestName.
       Inr (if chainTestName = testName then methodCalls @ climbCalls startNode else methodCalls))"

fun foldE :: "('s \<Rightarrow> 'a \<Rightarrow> error + 's) \<Rightarrow> 's \<Rightarrow> 'a list \<Rightarrow> error + 's" where
  "foldE f s [] = Inr s"
| "foldE f s (x # xs) = (case f s x of Inl e \<Rightarrow> Inl e | Inr s' \<Rightarrow> foldE f s' xs)"

text \<open>Line 225: \<open>callPath.node.callee.property.name\<close>.\<close>

definition calledName :: "node \<Rightarrow> error + methodCall" where
  "calledName call =
     (case callee_of call of
        Some (MemberExpression ob p c) \<Rightarrow> Inr (name_of p, call)
      | _ \<Rightarrow> Inl TypeError)"

text \<open>The state of the first pass: the map \<open>stubChains\<close>, and the arguments logged with
  the warning of line 114.\<close>

record collected =
  stubChains :: "string \<Rightarrow> StubReplacement list option"
  warnings :: "(node \<times> node) list"

text \<open>Lines 88-264, the callback of the first pass; \<open>orig\<close> is the tree parsed again from
  \<open>file.source\<close> (line 152), in which the references to the stub variable are found.\<close>

definition collectStub :: "node \<Rightarrow> collected \<Rightarrow> path \<Rightarrow> error + collected" where
  "collectStub orig st p =
     (case arguments_of (node p) of
        firstArg # secondArg # others \<Rightarrow>
          let className = classNameOf firstArg; methodName = methodNameOf secondArg in
          if \<not> truthy className \<or> \<not> truthy methodName
          then Inr (st\<lparr>warnings := warnings st @ [(firstArg, secondArg)]\<rparr>)
          else bindE (enclosingTestName (chain p)) (\<lambda>testName.
            let k = key className methodName testName in
            if stubChains st k \<noteq> None then Inr st
            else case findDeclarator (ancestors p) of
              [] \<Rightarrow> Inr st
            | varDec # varDecAncestors \<Rightarrow>
                let references =
                      (case varDec of
                         VariableDeclarator (Identifier varName) init \<Rightarrow>
                           findPaths (isReference varName) orig
                       | _ \<Rightarrow> [])
                in bindE (case varDecAncestors of
                            [] \<Rightarrow> Inr []
                          | a # as \<Rightarrow> processCallChain testName as []) (\<lambda>methodCalls.
                   bindE (foldE (\<lambda>mc refPath. processCallChain testName (chain refPath) mc)
                            methodCalls references) (\<lambda>methodCalls.
                   bindE (mapE calledName methodCalls) (\<lambda>named.
                     let chains = buildChains named in
                     Inr (if chains \<noteq> [] then st\<lparr>stubChains := (stubChains st)(k \<mapsto> chains)\<rparr>
                          else st)))))
      | _ \<Rightarrow> Inr st)"

definition collectStubs :: "node \<Rightarrow> node \<Rightarrow> error + collected" where
  "collectStubs orig root =
     foldE (collectStub orig) \<lparr>stubChains = Map.empty, warnings = []\<rparr> (findPaths isStubCall root)"

subsection \<open>Second pass: rewriting the stubs (lines 266-451)\<close>

text \<open>Lines 284-291.\<close>

definition methodNameOf2 :: "node \<Rightarrow> jsval" where
  "methodNameOf2 a =
     (case a of
        StringLiteral s \<Rightarrow> VStr s
      | Identifier s \<Rightarrow> VStr s
      | TSAsExpression e t \<Rightarrow> jsOr (nameVal e) (value_of e)
      | _ \<Rightarrow> VUndefined)"

text \<open>Lines 388-396: the value handed to \<open>j.literal\<close>.\<close>

definition methodLiteralValue :: "node \<Rightarrow> jsval" where
  "methodLiteralValue a =
     (case a of
        TSAsExpression e t \<Rightarrow> jsOr (value_of e) (nameVal e)
      | StringLiteral s \<Rightarrow> VStr s
      | Literal v \<Rightarrow> v
      | _ \<Rightarrow> jsOr (nameVal a) (VStr []))"

text \<open>The builders \<open>j.identifier\<close> and \<open>j.literal\<close> check their argument.\<close>

definition jIdentifier :: "jsval \<Rightarrow> error + node" where
  "jIdentifier v = (case v of VStr s \<Rightarrow> Inr (Identifier s) | _ \<Rightarrow> Inl BuilderError)"

definition jLiteral :: "jsval \<Rightarrow> error + node" where
  "jLiteral v = (case v of VUndefined \<Rightarrow> Inl BuilderError | _ \<Rightarrow> Inr (Literal v))"

text \<open>Lines 378-399.\<close>

definition mockCall :: "jsval \<Rightarrow> node \<Rightarrow> node \<Rightarrow> error + node" where
  "mockCall objName secondArg impl =
     bindE (jIdentifier objName) (\<lambda>ob.
     bindE (jLiteral (methodLiteralValue secondArg)) (\<lambda>lit.
       Inr (CallExpression (MemberExpression (Identifier ''mock'') (Identifier ''method'') False)
              [TSAsExpression (MemberExpression ob (Identifier ''prototype'') False) TSAnyKeyword,
               lit, impl])))"

text \<open>Lines 420-430: the chain of calls under an expression statement holds a
  \<open>withArgs\<close>, \<open>returns\<close> or \<open>resolves\<close>.\<close>

fun chainHasConfig :: "node \<Rightarrow> bool" where
  "chainHasConfig (CallExpression (MemberExpression ob p c) as) =
     (if name_of p = Some ''withArgs'' \<or> name_of p = Some ''returns'' \<or> name_of p = Some ''resolves''
      then True else chainHasConfig ob)"
| "chainHasConfig _ = False"

text \<open>Lines 414-436, over the ancestors of the identifier: the nearest enclosing expression
  statement decides.\<close>

fun inConfigStatement :: "node list \<Rightarrow> bool" where
  "inConfigStatement [] = False"
| "inConfigStatement (a # as) =
     (case a of ExpressionStatement expr \<Rightarrow> chainHasConfig expr | _ \<Rightarrow> inConfigStatement as)"

definition isChainReference :: "string \<Rightarrow> path \<Rightarrow> bool" where
  "isChainReference stubVarName p =
     (node p = Identifier stubVarName \<and> inConfigStatement (ancestors p))"

text \<open>Lines 441-447: how many steps up the nearest enclosing expression statement is.\<close>

fun statementDepth :: "node list \<Rightarrow> nat option" where
  "statementDepth [] = None"
| "statementDepth (a # as) =
     (case a of ExpressionStatement expr \<Rightarrow> Some 0 | _ \<Rightarrow> map_option Suc (statementDepth as))"

text \<open>The position of the ancestor \<open>k\<close> steps above the parent.\<close>

definition ancestorPos :: "path \<Rightarrow> nat \<Rightarrow> nat list" where
  "ancestorPos p k = take (length (pos p) - Suc k) (pos p)"

definition removeChainStatement :: "path \<Rightarrow> node \<Rightarrow> error + node option" where
  "removeChainStatement p root =
     (case statementDepth (ancestors p) of
        None \<Rightarrow> Inr None
      | Some k \<Rightarrow> Inr (Some (removeAt root (ancestorPos p k))))"

text \<open>Lines 279-450, the callback of the second pass.\<close>

definition rewriteStub :: "(string \<Rightarrow> StubReplacement list option) \<Rightarrow> path \<Rightarrow> node
                           \<Rightarrow> error + node option" where
  "rewriteStub chainsOf p root =
     (case arguments_of (node p) of
        firstArg # secondArg # others \<Rightarrow>
          (case object_of firstArg of
             None \<Rightarrow> Inr None
           | Some ob \<Rightarrow>
               let objName = nameVal ob; methodName = methodNameOf2 secondArg in
               bindE (enclosingTestName (chain p)) (\<lambda>currentTestName.
                 let k = key objName methodName currentTestName;
                     currentTestChains = (case chainsOf k of None \<Rightarrow> [] | Some cs \<Rightarrow> cs)
                 in bindE (mockImpl currentTestChains) (\<lambda>impl.
                    bindE (mockCall objName secondArg impl) (\<lambda>call.
                      case ancestors p of
                        par # grand # rest \<Rightarrow>
                          let root = replaceAt root (ancestorPos p 1) (ExpressionStatement call);
                              stubVarName = (case par of VariableDeclarator ident init \<Rightarrow> name_of ident
                                             | _ \<Rightarrow> None)
                          in (case stubVarName of
                                None \<Rightarrow> Inr (Some root)
                              | Some v \<Rightarrow>
                                  if v = [] then Inr (Some root)
                                  else bindE (forEach (isChainReference v) removeChainStatement root)
                                         (\<lambda>root. Inr (Some root)))
                      | _ \<Rightarrow> Inl TypeError))))
      | _ \<Rightarrow> Inr None)"

definition rewriteStubs :: "(string \<Rightarrow> StubReplacement list option) \<Rightarrow> node \<Rightarrow> error + node" where
  "rewriteStubs chainsOf root = forEach isStubCall (rewriteStub chainsOf) root"

subsection \<open>Restore calls (lines 454-520)\<close>

definition isRestoreCall :: "path \<Rightarrow> bool" where
  "isRestoreCall p =
     (isIdMemberCall ''sandBox'' ''restore'' (node p) \<or> isIdMemberCall ''sinon'' ''restore'' (node p))"

definition mockReset :: node where
  "mockReset =
     ExpressionStatement
       (CallExpression (MemberExpression (Identifier ''mock'') (Identifier ''reset'') False) [])"

definition isAfterEachCall :: "node \<Rightarrow> bool" where
  "isAfterEachCall n =
     (case n of CallExpression callee as \<Rightarrow> name_of callee = Some ''afterEach'' | _ \<Rightarrow> False)"

text \<open>Lines 472-482: the loop \<open>while (current.parent)\<close> over the call and its ancestors; the
  nearest \<open>afterEach(...)\<close> call that has a parent, if any.\<close>

fun enclosingAfterEach :: "node list \<Rightarrow> node option" where
  "enclosingAfterEach (n # p # rest) =
     (if isAfterEachCall n then Some n else enclosingAfterEach (p # rest))"
| "enclosingAfterEach _ = None"

text \<open>Line 486: \<open>current.node.arguments[0].body.body\<close>, with the TypeError of line 487 when
  that is no statement list.\<close>

definition afterEachBody :: "node \<Rightarrow> error + node list" where
  "afterEachBody call =
     (case arguments_of call of
        ArrowFunctionExpression params (BlockStatement body) # others \<Rightarrow> Inr body
      | _ \<Rightarrow> Inl TypeError)"

text \<open>Lines 487-493.\<close>

definition isResetStatement :: "node \<Rightarrow> bool" where
  "isResetStatement stmt =
     (case stmt of
        ExpressionStatement (CallExpression (MemberExpression ob p c) as) \<Rightarrow>
          name_of ob = Some ''mock'' \<and> name_of p = Some ''reset''
      | _ \<Rightarrow> False)"

text \<open>Lines 470-519, the callback: \<open>path.parent\<close> is replaced or removed.\<close>

definition rewriteRestore :: "path \<Rightarrow> node \<Rightarrow> error + node option" where
  "rewriteRestore p root =
     (case enclosingAfterEach (chain p) of
        Some call \<Rightarrow>
          bindE (afterEachBody call) (\<lambda>body.
            if \<not> list_ex isResetStatement body
            then Inr (Some (replaceAt root (ancestorPos p 0) mockReset))
            else Inr (Some (removeAt root (ancestorPos p 0))))
      | None \<Rightarrow> Inr (Some (replaceAt root (ancestorPos p 0) mockReset)))"

definition rewriteRestores :: "node \<Rightarrow> error + node" where
  "rewriteRestores root = forEach isRestoreCall rewriteRestore root"

subsection \<open>The transform (lines 8-523)\<close>

text \<open>The result is the tree that \<open>root.toSource()\<close> prints; \<open>source\<close> is the parsed
  \<open>file.source\<close>.\<close>

definition transformSinon :: "node \<Rightarrow> error + node" where
  "transformSinon source =
     bindE (sinonImports source) (\<lambda>root.
     bindE (removeAll isCreateSandbox root) (\<lambda>root.
     bindE (collectStubs source root) (\<lambda>st.
     bindE (rewriteStubs (stubChains st) root) (\<lambda>root.
       rewriteRestores root))))"

section \<open>The first should migration (unnamed/part_000, lines 1-540)\<close>

subsection \<open>Chains and builders\<close>

text \<open>Lines 267-274 and 280-291: walking down a chain of member expressions collects the
  names of the identifier properties (\<open>unshift\<close>: the innermost comes first) and ends at the
  expression the chain starts from.\<close>

fun chainProps :: "node \<Rightarrow> string list" where
  "chainProps (MemberExpression ob p c) =
     chainProps ob @ (case name_of p of None \<Rightarrow> [] | Some s \<Rightarrow> [s])"
| "chainProps n = []"

fun chainRoot :: "node \<Rightarrow> node" where
  "chainRoot (MemberExpression ob p c) = chainRoot ob"
| "chainRoot n = n"

text \<open>\<open>j.callExpression(j.memberExpression(j.identifier('assert'), j.identifier(name)), args)\<close>;
  the builder refuses an undefined argument.\<close>

definition requireNode :: "node option \<Rightarrow> error + node" where
  "requireNode a = (case a of None \<Rightarrow> Inl BuilderError | Some x \<Rightarrow> Inr x)"

definition assertCall :: "string \<Rightarrow> node option list \<Rightarrow> error + node" where
  "assertCall name as =
     bindE (mapE requireNode as) (\<lambda>xs.
       Inr (CallExpression (MemberExpression (Identifier ''assert'') (Identifier name) False) xs))"

text \<open>\<open>j(path).replaceWith(new)\<close> and \<open>j(path.parent).replaceWith(new)\<close> as results of a
  callback.\<close>

definition replaceWith :: "path \<Rightarrow> node \<Rightarrow> error + node \<Rightarrow> error + node option" where
  "replaceWith p root new = bindE new (\<lambda>n. Inr (Some (replaceAt root (pos p) n)))"

definition replaceParentWith :: "path \<Rightarrow> node \<Rightarrow> error + node \<Rightarrow> error + node option" where
  "replaceParentWith p root new =
     (case ancestors p of
        [] \<Rightarrow> Inl TypeError
      | a # as \<Rightarrow> bindE new (\<lambda>n. Inr (Some (replaceAt root (ancestorPos p 0) n))))"

text \<open>\<open>path.parent.node.arguments\<close>: undefined (\<open>None\<close>) unless the parent is a call.\<close>

definition parentArguments :: "path \<Rightarrow> node list option" where
  "parentArguments p =
     (case ancestors p of
        CallExpression callee as # rest \<Rightarrow> Some as
      | _ \<Rightarrow> None)"

text \<open>\<open>path.parent.node.arguments[0]\<close>: a TypeError when there are no arguments to index.\<close>

definition parentArgument0 :: "path \<Rightarrow> error + node option" where
  "parentArgument0 p = (case parentArguments p of None \<Rightarrow> Inl TypeError | Some as \<Rightarrow> Inr (nth_opt as 0))"

text \<open>\<open>...path.parent.node.arguments\<close>: spreading undefined is a TypeError.\<close>

definition parentArgumentsSpread :: "path \<Rightarrow> error + node list" where
  "parentArgumentsSpread p = (case parentArguments p of None \<Rightarrow> Inl TypeError | Some as \<Rightarrow> Inr as)"

subsection \<open>Imports (lines 7-72)\<close>

definition isShouldOrMochaImport :: "path \<Rightarrow> bool" where
  "isShouldOrMochaImport p = (isImportFrom ''should'' p \<or> isImportFrom ''mocha'' p)"

definition isAssertImport :: "path \<Rightarrow> bool" where
  "isAssertImport p = (isImportFrom ''node:assert'' p \<or> isImportFrom ''assert'' p)"

text \<open>Lines 28-37 and 45: the set \<open>{describe, it}\<close> with each of \<open>before\<close>, \<open>after\<close>,
  \<open>beforeEach\<close>, \<open>afterEach\<close> that is the name of some identifier of the file, as the sorted
  array.\<close>

definition usedTestFunctions :: "node \<Rightarrow> string list" where
  "usedTestFunctions root =
     filter (\<lambda>name. name = ''describe'' \<or> name = ''it''
                    \<or> list_ex (\<lambda>p. node p = Identifier name) (pathsFrom [] [] root))
       [''after'', ''afterEach'', ''before'', ''beforeEach'', ''describe'', ''it'']"

definition nodeTestImport :: "string list \<Rightarrow> node" where
  "nodeTestImport names =
     ImportDeclaration (map (\<lambda>name. ImportSpecifier (Identifier name) (Identifier name)) names)
       (Literal (VStr ''node:test''))"

definition nodeAssertImport :: node where
  "nodeAssertImport =
     ImportDeclaration [ImportDefaultSpecifier (Identifier ''assert'')] (Literal (VStr ''node:assert''))"

text \<open>Lines 16-72.\<close>

definition ensureImports :: "node \<Rightarrow> error + node" where
  "ensureImports root =
     (let hasNodeTest = (findPaths (isImportFrom ''node:test'') root \<noteq> []);
          used = usedTestFunctions root
      in bindE (if \<not> hasNodeTest then insertFirst (nodeTestImport used) root else Inr root) (\<lambda>root.
           let hasAnyAssertImport = (findPaths isAssertImport root \<noteq> [])
           in if \<not> hasAnyAssertImport then insertFirst nodeAssertImport root else Inr root))"

subsection \<open>The rewriting passes\<close>

text \<open>Lines 75-116. The collection is of member expressions, and the filter reads
  \<open>path.node.callee\<close>, which a member expression does not have.\<close>

definition variantFilter :: "path \<Rightarrow> bool" where
  "variantFilter p =
     (isMember (node p) \<and>
      (case callee_of (node p) of
         Some (MemberExpression ob prop c) \<Rightarrow>
           (case ob of
              MemberExpression ob2 prop2 c2 \<Rightarrow>
                if name_of prop2 = Some ''be''
                then name_of prop = Some ''true'' \<or> name_of prop = Some ''false''
                else name_of prop = Some ''should''
            | _ \<Rightarrow> name_of prop = Some ''should'')
       | _ \<Rightarrow> False))"

definition variantCallback :: "path \<Rightarrow> node \<Rightarrow> error + node option" where
  "variantCallback p root =
     (case callee_of (node p) of
        None \<Rightarrow> Inl TypeError
      | Some callee \<Rightarrow>
          (case object_of callee of
             Some (MemberExpression ob2 prop2 c2) \<Rightarrow>
               if name_of prop2 = Some ''be''
               then replaceWith p root
                      (assertCall ''strictEqual''
                         [object_of ob2,
                          Some (Literal (VBool (Option.bind (property_of callee) name_of = Some ''true'')))])
               else replaceWith p root (assertCall ''ok'' [object_of callee])
           | _ \<Rightarrow> replaceWith p root (assertCall ''ok'' [object_of callee])))"

text \<open>Lines 119-151.\<close>

definition equalFilter :: "path \<Rightarrow> bool" where
  "equalFilter p =
     (case node p of
        CallExpression (MemberExpression ob prop c) as \<Rightarrow>
          if name_of prop \<noteq> Some ''equal'' then False
          else if name_of ob = Some ''should'' then True
          else (case ob of
                  MemberExpression ob2 prop2 c2 \<Rightarrow>
                    if name_of prop2 = Some ''should'' then True
                    else name_of prop2 = Some ''not''
                         \<and> (case ob2 of MemberExpression ob3 prop3 c3 \<Rightarrow> name_of prop3 = Some ''should''
                             | _ \<Rightarrow> False)
                | _ \<Rightarrow> False)
      | _ \<Rightarrow> False)"

text \<open>
  Lines 152-184. The new argument list is
  \<open>[firstArg, ...arguments.slice(firstArg === arguments[0] ? 1 : 0)]\<close>, a comparison of
  object identity: \<open>firstArg\<close> is the first argument itself in the \<open>should.equal(x, y)\<close> case
  (then the list is the old one), and a node of the callee in the other case (then it is put
  in front of the old list). An undefined \<open>firstArg\<close> is refused by the builder.
\<close>

definition equalCallback :: "path \<Rightarrow> node \<Rightarrow> error + node option" where
  "equalCallback p root =
     (case node p of
        CallExpression (MemberExpression ob prop c) as \<Rightarrow>
          if name_of ob = Some ''should''
          then replaceWith p root (assertCall ''equal'' (nth_opt as 0 # map Some (tl as)))
          else (case ob of
                  MemberExpression ob2 prop2 c2 \<Rightarrow>
                    if name_of prop2 = Some ''should''
                    then replaceWith p root (assertCall ''equal'' (Some ob2 # map Some as))
                    else if name_of prop2 = Some ''not''
                    then replaceWith p root (assertCall ''notEqual'' (object_of ob2 # map Some as))
                    else replaceWith p root (assertCall ''equal'' (None # map Some as))
                | _ \<Rightarrow> replaceWith p root (assertCall ''equal'' (None # map Some as)))
      | _ \<Rightarrow> Inl TypeError)"

text \<open>Lines 187-227.\<close>

definition deepEqualFilter :: "path \<Rightarrow> bool" where
  "deepEqualFilter p =
     (case node p of
        CallExpression (MemberExpression ob prop c) as \<Rightarrow>
          if name_of prop \<noteq> Some ''deepEqual'' \<and> name_of prop \<noteq> Some ''eql'' then False
          else if name_of ob = Some ''should'' then True
          else (case ob of MemberExpression ob2 prop2 c2 \<Rightarrow> name_of prop2 = Some ''should''
                | _ \<Rightarrow> False)
      | _ \<Rightarrow> False)"

definition deepEqualCallback :: "path \<Rightarrow> node \<Rightarrow> error + node option" where
  "deepEqualCallback p root =
     (case node p of
        CallExpression (MemberExpression ob prop c) as \<Rightarrow>
          if name_of ob = Some ''should''
          then replaceWith p root (assertCall ''deepStrictEqual'' (nth_opt as 0 # map Some (tl as)))
          else replaceWith p root (assertCall ''deepStrictEqual'' (object_of ob # map Some as))
      | _ \<Rightarrow> Inl TypeError)"

text \<open>Lines 230-258.\<close>

definition booleanFilter :: "path \<Rightarrow> bool" where
  "booleanFilter p =
     (case node p of
        CallExpression (MemberExpression ob prop c) as \<Rightarrow>
          if name_of prop \<noteq> Some ''true'' \<and> name_of prop \<noteq> Some ''false'' then False
          else (case ob of
                  MemberExpression ob2 prop2 c2 \<Rightarrow>
                    if name_of prop2 \<noteq> Some ''be'' then False
                    else (case ob2 of MemberExpression ob3 prop3 c3 \<Rightarrow> name_of prop3 = Some ''should''
                          | _ \<Rightarrow> False)
                | _ \<Rightarrow> False)
      | _ \<Rightarrow> False)"

definition booleanCallback :: "path \<Rightarrow> node \<Rightarrow> error + node option" where
  "booleanCallback p root =
     (case node p of
        CallExpression (MemberExpression ob prop c) as \<Rightarrow>
          (case Option.bind (object_of ob) object_of of
             None \<Rightarrow> (if object_of ob = None then Inl TypeError
                       else replaceWith p root (assertCall ''strictEqual''
                              [None, Some (Literal (VBool (name_of prop = Some ''true'')))]))
           | Some originalValue \<Rightarrow>
               replaceWith p root (assertCall ''strictEqual''
                 [Some originalValue, Some (Literal (VBool (name_of prop = Some ''true'')))]))
      | _ \<Rightarrow> Inl TypeError)"

text \<open>Lines 261-278.\<close>

definition shouldChainFilter :: "path \<Rightarrow> bool" where
  "shouldChainFilter p = (isMember (node p) \<and> ''should'' \<in> set (chainProps (node p)))"

definition hasOwnPropertyCall :: "node list \<Rightarrow> node" where
  "hasOwnPropertyCall as =
     CallExpression
       (MemberExpression
          (MemberExpression
             (MemberExpression (Identifier ''Object'') (Identifier ''prototype'') False)
             (Identifier ''hasOwnProperty'') False)
          (Identifier ''call'') False) as"

text \<open>Lines 279-411.\<close>

definition shouldChainCallback :: "path \<Rightarrow> node \<Rightarrow> error + node option" where
  "shouldChainCallback p root =
     (let props = chainProps (node p); originalValue = chainRoot (node p) in
      if ''rejectedWith'' \<in> set props
      then bindE (parentArgument0 p) (\<lambda>message.
             replaceParentWith p root
               (bindE (requireNode message) (\<lambda>m.
                  assertCall ''rejects''
                    [Some originalValue, Some (ObjectExpression [Property (Identifier ''message'') m])])))
      else if ''fulfilled'' \<in> set props
      then replaceParentWith p root
             (assertCall ''doesNotReject''
                [Some (ArrowFunctionExpression [] (BlockStatement [ReturnStatement (Some originalValue)]))])
      else if ''empty'' \<in> set props
      then replaceParentWith p root
             (assertCall (if ''not'' \<in> set props then ''notEqual'' else ''equal'')
                [Some (MemberExpression originalValue (Identifier ''length'') False),
                 Some (Literal (VNum 0))])
      else if ''hasOwnProperty'' \<in> set props
      then bindE (parentArgumentsSpread p) (\<lambda>as.
             replaceParentWith p root (assertCall ''ok'' [Some (hasOwnPropertyCall (originalValue # as))]))
      else if ''greaterThanOrEqual'' \<in> set props
      then bindE (parentArgument0 p) (\<lambda>a.
             replaceParentWith p root
               (bindE (requireNode a) (\<lambda>y.
                  assertCall ''ok'' [Some (BinaryExpression ''>='' originalValue y)])))
      else if ''instanceof'' \<in> set props
      then bindE (parentArgument0 p) (\<lambda>a.
             replaceParentWith p root
               (bindE (requireNode a) (\<lambda>y.
                  assertCall ''ok'' [Some (BinaryExpression ''instanceof'' originalValue y)])))
      else if ''property'' \<in> set props
      then bindE (parentArgumentsSpread p) (\<lambda>as.
             replaceParentWith p root (assertCall ''ok'' [Some (hasOwnPropertyCall (originalValue # as))]))
      else Inr None)"

text \<open>Lines 414-453.\<close>

definition existFilter :: "path \<Rightarrow> bool" where
  "existFilter p =
     (case node p of
        CallExpression (MemberExpression ob prop c) as \<Rightarrow>
          if name_of prop \<noteq> Some ''exist'' then False
          else if name_of ob = Some ''should'' then True
          else (case ob of
                  MemberExpression ob2 prop2 c2 \<Rightarrow>
                    name_of prop2 = Some ''not'' \<and> name_of ob2 = Some ''should''
                | _ \<Rightarrow> False)
      | _ \<Rightarrow> False)"

definition existCallback :: "path \<Rightarrow> node \<Rightarrow> error + node option" where
  "existCallback p root =
     (case node p of
        CallExpression (MemberExpression ob prop c) as \<Rightarrow>
          if isMember ob \<and> Option.bind (property_of ob) name_of = Some ''not''
          then replaceWith p root (assertCall ''equal'' [nth_opt as 0, Some (Identifier ''undefined'')])
          else replaceWith p root (assertCall ''ok'' [nth_opt as 0])
      | _ \<Rightarrow> Inl TypeError)"

text \<open>Lines 456-496.\<close>

definition doesNotThrowFilter :: "path \<Rightarrow> bool" where
  "doesNotThrowFilter p =
     (case node p of
        CallExpression (MemberExpression ob prop c) as \<Rightarrow>
          if name_of prop \<noteq> Some ''doesNotThrow'' then False
          else if name_of ob = Some ''should'' then True
          else (case ob of MemberExpression ob2 prop2 c2 \<Rightarrow> name_of prop2 = Some ''should''
                | _ \<Rightarrow> False)
      | _ \<Rightarrow> False)"

definition doesNotThrowCallback :: "path \<Rightarrow> node \<Rightarrow> error + node option" where
  "doesNotThrowCallback p root =
     (case node p of
        CallExpression (MemberExpression ob prop c) as \<Rightarrow>
          if name_of ob = Some ''should''
          then replaceWith p root (assertCall ''doesNotThrow'' [nth_opt as 0])
          else replaceWith p root (assertCall ''doesNotThrow'' [object_of ob])
      | _ \<Rightarrow> Inl TypeError)"

text \<open>Lines 499-535.\<close>

definition shouldCallFilter :: "path \<Rightarrow> bool" where
  "shouldCallFilter p =
     (case node p of
        CallExpression (MemberExpression ob prop c) as \<Rightarrow>
          (case ob of
             CallExpression callee2 as2 \<Rightarrow>
               name_of callee2 = Some ''should''
               \<and> (name_of prop = Some ''equal'' \<or> name_of prop = Some ''ok'')
           | _ \<Rightarrow> False)
      | _ \<Rightarrow> False)"

definition shouldCallCallback :: "path \<Rightarrow> node \<Rightarrow> error + node option" where
  "shouldCallCallback p root =
     (case node p of
        CallExpression (MemberExpression ob prop c) as \<Rightarrow>
          (case ob of
             CallExpression callee2 as2 \<Rightarrow>
               if name_of prop = Some ''equal''
               then replaceWith p root (assertCall ''strictEqual'' (nth_opt as2 0 # map Some as))
               else if name_of prop = Some ''ok''
               then replaceWith p root (assertCall ''ok'' [nth_opt as2 0])
               else Inr None
           | _ \<Rightarrow> Inl TypeError)
      | _ \<Rightarrow> Inl TypeError)"

subsection \<open>The transform (lines 3-538)\<close>

definition transformShould :: "node \<Rightarrow> error + node" where
  "transformShould source =
     bindE (removeAll isShouldOrMochaImport source) (\<lambda>root.
     bindE (ensureImports root) (\<lambda>root.
     bindE (forEach variantFilter variantCallback root) (\<lambda>root.
     bindE (forEach equalFilter equalCallback root) (\<lambda>root.
     bindE (forEach deepEqualFilter deepEqualCallback root) (\<lambda>root.
     bindE (forEach booleanFilter booleanCallback root) (\<lambda>root.
     bindE (forEach shouldChainFilter shouldChainCallback root) (\<lambda>root.
     bindE (forEach existFilter existCallback root) (\<lambda>root.
     bindE (forEach doesNotThrowFilter doesNotThrowCallback root) (\<lambda>root.
       forEach shouldCallFilter shouldCallCallback root)))))))))"

section \<open>The second should migration (unnamed/part_000, lines 541-1521)\<close>

subsection \<open>Imports (lines 543-650)\<close>

definition isLodashImport :: "path \<Rightarrow> bool" where
  "isLodashImport p = (isImportFrom ''lodash'' p \<or> isImportFrom ''_'' p)"

definition lodashImport :: node where
  "lodashImport =
     ImportDeclaration [ImportDefaultSpecifier (Identifier ''_'')] (Literal (VStr ''lodash''))"

text \<open>Lines 543-565; the flag tells whether the import was inserted.\<close>

definition ensureLodashImport :: "node \<Rightarrow> error + node \<times> bool" where
  "ensureLodashImport root =
     (if findPaths isLodashImport root = []
      then bindE (insertFirst lodashImport root) (\<lambda>r. Inr (r, True))
      else Inr (root, False))"

text \<open>A path keeps pointing at its node when a statement is inserted in front of the
  program body: below the program at \<open>prog\<close> the index of the statement moves up by one.\<close>

fun shiftUnder :: "nat list \<Rightarrow> nat list \<Rightarrow> nat list" where
  "shiftUnder [] (i # rest) = Suc i # rest"
| "shiftUnder (q # qs) (i # rest) = (if q = i then i # shiftUnder qs rest else i # rest)"
| "shiftUnder qs [] = []"

definition afterInsert :: "node \<Rightarrow> bool \<Rightarrow> nat list \<Rightarrow> nat list" where
  "afterInsert root inserted ps =
     (if inserted
      then (case findPaths isProgram root of [] \<Rightarrow> ps | prog # others \<Rightarrow> shiftUnder (pos prog) ps)
      else ps)"

text \<open>Line 595: \<open>file.path.startsWith('modules/bitgo/') || file.path.includes('/modules/bitgo/')\<close>.\<close>

definition startsWith :: "string \<Rightarrow> string \<Rightarrow> bool" where
  "startsWith s prefix = (take (length prefix) s = prefix)"

fun includesStr :: "string \<Rightarrow> string \<Rightarrow> bool" where
  "includesStr [] sub = (sub = [])"
| "includesStr (c # cs) sub = (startsWith (c # cs) sub \<or> includesStr cs sub)"

definition isInBitGoModule :: "string \<Rightarrow> bool" where
  "isInBitGoModule filePath =
     (startsWith filePath ''modules/bitgo/'' \<or> includesStr filePath ''/modules/bitgo/'')"

text \<open>Lines 637-644: the statement printed as \<open>import assert = require('assert')\<close>, an
  expression statement that assigns to an identifier named \<open>import assert\<close>.\<close>

definition requireAssert :: node where
  "requireAssert =
     ExpressionStatement
       (AssignmentExpression ''='' (Identifier ''import assert'')
          (CallExpression (Identifier ''require'') [Literal (VStr ''assert'')]))"

text \<open>Lines 580-650.\<close>

definition ensureImports2 :: "string \<Rightarrow> node \<Rightarrow> error + node" where
  "ensureImports2 filePath root =
     (let hasNodeTest = (findPaths (isImportFrom ''node:test'') root \<noteq> []);
          used = usedTestFunctions root
      in bindE (if \<not> hasNodeTest then insertFirst (nodeTestImport used) root else Inr root) (\<lambda>root.
           let hasAnyAssertImport = (findPaths isAssertImport root \<noteq> [])
           in if \<not> hasAnyAssertImport
              then insertFirst (if isInBitGoModule filePath then requireAssert else nodeAssertImport) root
              else Inr root))"

subsection \<open>The rewriting passes\<close>

text \<open>
  Lines 735-747 (and 798-810, 1178-1193): from a chain of member expressions, walking down
  to the property \<open>should\<close>: the object of that member (undefined when there is no
  \<open>should\<close>), and whether a \<open>not\<close> was passed on the way.
\<close>

fun walkToShould :: "node \<Rightarrow> node option \<times> bool" where
  "walkToShould (MemberExpression ob p c) =
     (if name_of p = Some ''should'' then (Some ob, False)
      else (fst (walkToShould ob), snd (walkToShould ob) \<or> name_of p = Some ''not''))"
| "walkToShould n = (None, False)"

text \<open>Lines 697-724.\<close>

definition equalFilter2 :: "path \<Rightarrow> bool" where
  "equalFilter2 p =
     (case node p of
        CallExpression (MemberExpression ob prop c) as \<Rightarrow>
          if name_of prop \<noteq> Some ''equal'' then False
          else if name_of ob = Some ''should'' then True
          else isMember ob \<and> ''should'' \<in> set (chainProps ob)
      | _ \<Rightarrow> False)"

text \<open>Lines 725-759; the argument list as in the first migration.\<close>

definition equalCallback2 :: "path \<Rightarrow> node \<Rightarrow> error + node option" where
  "equalCallback2 p root =
     (case node p of
        CallExpression (MemberExpression ob prop c) as \<Rightarrow>
          if name_of ob = Some ''should''
          then replaceWith p root (assertCall ''strictEqual'' (nth_opt as 0 # map Some (tl as)))
          else replaceWith p root
                 (assertCall (if snd (walkToShould ob) then ''notStrictEqual'' else ''strictEqual'')
                    (fst (walkToShould ob) # map Some as))
      | _ \<Rightarrow> Inl TypeError)"

text \<open>Lines 762-822.\<close>

definition deepEqualFilter2 :: "path \<Rightarrow> bool" where
  "deepEqualFilter2 p =
     (case node p of
        CallExpression (MemberExpression ob prop c) as \<Rightarrow>
          if name_of prop \<noteq> Some ''deepEqual'' \<and> name_of prop \<noteq> Some ''eql'' then False
          else if name_of ob = Some ''should'' then True
          else isMember ob \<and> ''should'' \<in> set (chainProps ob)
      | _ \<Rightarrow> False)"

definition deepEqualCallback2 :: "path \<Rightarrow> node \<Rightarrow> error + node option" where
  "deepEqualCallback2 p root =
     (case node p of
        CallExpression (MemberExpression ob prop c) as \<Rightarrow>
          if name_of ob = Some ''should''
          then replaceWith p root (assertCall ''deepStrictEqual'' (nth_opt as 0 # map Some (tl as)))
          else replaceWith p root
                 (assertCall (if snd (walkToShould ob) then ''notDeepStrictEqual'' else ''deepStrictEqual'')
                    (fst (walkToShould ob) # map Some as))
      | _ \<Rightarrow> Inl TypeError)"

text \<open>Lines 825-853.\<close>

definition booleanFilter2 :: "path \<Rightarrow> bool" where
  "booleanFilter2 p =
     (case node p of
        CallExpression (MemberExpression ob prop c) as \<Rightarrow>
          if name_of prop \<noteq> Some ''true'' \<and> name_of prop \<noteq> Some ''false''
             \<and> name_of prop \<noteq> Some ''True'' \<and> name_of prop \<noteq> Some ''False'' then False
          else (case ob of
                  MemberExpression ob2 prop2 c2 \<Rightarrow>
                    if name_of prop2 \<noteq> Some ''be'' then False
                    else (case ob2 of MemberExpression ob3 prop3 c3 \<Rightarrow> name_of prop3 = Some ''should''
                          | _ \<Rightarrow> False)
                | _ \<Rightarrow> False)
      | _ \<Rightarrow> False)"

definition booleanCallback2 :: "path \<Rightarrow> node \<Rightarrow> error + node option" where
  "booleanCallback2 p root =
     (case node p of
        CallExpression (MemberExpression ob prop c) as \<Rightarrow>
          (let booleanValue = (name_of prop = Some ''true'' \<or> name_of prop = Some ''True'') in
           case Option.bind (object_of ob) object_of of
             None \<Rightarrow> (if object_of ob = None then Inl TypeError
                       else replaceWith p root (assertCall ''strictEqual''
                              [None, Some (Literal (VBool booleanValue))]))
           | Some originalValue \<Rightarrow>
               replaceWith p root (assertCall ''strictEqual''
                 [Some originalValue, Some (Literal (VBool booleanValue))]))
      | _ \<Rightarrow> Inl TypeError)"

text \<open>Lines 856-898.\<close>

definition stringFilter :: "path \<Rightarrow> bool" where
  "stringFilter p =
     (case node p of
        CallExpression (MemberExpression ob prop c) as \<Rightarrow>
          name_of prop = Some ''String'' \<and> ''should'' \<in> set (chainProps ob)
      | _ \<Rightarrow> False)"

definition stringCallback :: "path \<Rightarrow> node \<Rightarrow> error + node option" where
  "stringCallback p root =
     (case node p of
        CallExpression (MemberExpression ob prop c) as \<Rightarrow>
          replaceWith p root
            (bindE (requireNode (fst (walkToShould ob))) (\<lambda>originalValue.
               assertCall ''strictEqual''
                 [Some (UnaryExpression ''typeof'' originalValue), Some (Literal (VStr ''string''))]))
      | _ \<Rightarrow> Inl TypeError)"

definition lodashCall :: "string \<Rightarrow> node list \<Rightarrow> node" where
  "lodashCall name as = CallExpression (MemberExpression (Identifier ''_'') (Identifier name) False) as"

text \<open>The value under test of lines 1003-1010 and 1028-1035: the object of \<open>should\<close> when
  the chain has one, and the start of the chain otherwise.\<close>

definition valueAtShould :: "node \<Rightarrow> node" where
  "valueAtShould n = (case fst (walkToShould n) of None \<Rightarrow> chainRoot n | Some v \<Rightarrow> v)"

text \<open>\<open>j(target).replaceWith(new)\<close> after \<open>ensureLodashImport(j, root)\<close>.\<close>

definition replaceAfterLodash :: "nat list \<Rightarrow> node \<Rightarrow> error + node \<Rightarrow> error + node option" where
  "replaceAfterLodash target root new =
     bindE (ensureLodashImport root) (\<lambda>(root', inserted).
     bindE new (\<lambda>n. Inr (Some (replaceAt root' (afterInsert root inserted target) n))))"

text \<open>Lines 919-1155.\<close>

definition shouldChainCallback2 :: "path \<Rightarrow> node \<Rightarrow> error + node option" where
  "shouldChainCallback2 p root =
     (let props = chainProps (node p); originalValue = chainRoot (node p) in
      if ''rejectedWith'' \<in> set props
      then bindE (parentArgument0 p) (\<lambda>message.
             replaceParentWith p root
               (bindE (requireNode message) (\<lambda>m.
                  assertCall ''rejects''
                    [Some originalValue, Some (ObjectExpression [Property (Identifier ''message'') m])])))
      else if ''fulfilled'' \<in> set props
      then replaceParentWith p root
             (assertCall ''doesNotReject''
                [Some (ArrowFunctionExpression [] (BlockStatement [ReturnStatement (Some originalValue)]))])
      else if ''empty'' \<in> set props
      then replaceParentWith p root
             (assertCall (if ''not'' \<in> set props then ''notEqual'' else ''equal'')
                [Some (MemberExpression originalValue (Identifier ''length'') False),
                 Some (Literal (VNum 0))])
      else if ''hasOwnProperty'' \<in> set props
      then bindE (parentArgumentsSpread p) (\<lambda>as.
             replaceParentWith p root (assertCall ''ok'' [Some (hasOwnPropertyCall (originalValue # as))]))
      else if ''greaterThanOrEqual'' \<in> set props
      then bindE (parentArgument0 p) (\<lambda>a.
             replaceParentWith p root
               (bindE (requireNode a) (\<lambda>y.
                  assertCall ''ok'' [Some (BinaryExpression ''>='' (valueAtShould (node p)) y)])))
      else if ''within'' \<in> set props
      then (case ancestors p of
              [] \<Rightarrow> Inl TypeError
            | a # rest \<Rightarrow>
                replaceAfterLodash (ancestorPos p 0) root
                  (bindE (parentArgumentsSpread p) (\<lambda>as.
                     assertCall ''ok'' [Some (lodashCall ''inRange'' (valueAtShould (node p) # as))])))
      else if ''startWith'' \<in> set props
      then (case ancestors p of
              [] \<Rightarrow> Inl TypeError
            | a # rest \<Rightarrow>
                replaceAfterLodash (ancestorPos p 0) root
                  (bindE (parentArgument0 p) (\<lambda>a0.
                   bindE (requireNode a0) (\<lambda>y.
                     assertCall ''ok'' [Some (lodashCall ''startsWith'' [originalValue, y])]))))
      else if ''instanceof'' \<in> set props
      then bindE (parentArgument0 p) (\<lambda>a.
             replaceParentWith p root
               (bindE (requireNode a) (\<lambda>y.
                  assertCall ''ok'' [Some (BinaryExpression ''instanceof'' originalValue y)])))
      else if ''propertyByPath'' \<in> set props
      then (case ancestors p of
              par # grand # rest \<Rightarrow>
                let getCall = (case parentArguments p of
                                 None \<Rightarrow> Inl BuilderError
                               | Some as \<Rightarrow> Inr (lodashCall ''get'' [originalValue, ArrayExpression as]))
                in (case (grand, rest) of
                      (MemberExpression gob gprop gc, CallExpression gcallee gas # rest') \<Rightarrow>
                        if name_of gprop = Some ''greaterThan''
                        then replaceAfterLodash (ancestorPos p 2) root
                               (bindE getCall (\<lambda>g.
                                bindE (requireNode (nth_opt gas 0)) (\<lambda>y.
                                  assertCall ''ok'' [Some (BinaryExpression ''>'' g y)])))
                        else replaceAfterLodash (ancestorPos p 0) root
                               (bindE getCall (\<lambda>g. assertCall ''ok'' [Some g]))
                    | (MemberExpression gob gprop gc, []) \<Rightarrow>
                        if name_of gprop = Some ''greaterThan''
                        then bindE (ensureLodashImport root) (\<lambda>r. Inl TypeError)
                        else replaceAfterLodash (ancestorPos p 0) root
                               (bindE getCall (\<lambda>g. assertCall ''ok'' [Some g]))
                    | _ \<Rightarrow> replaceAfterLodash (ancestorPos p 0) root
                               (bindE getCall (\<lambda>g. assertCall ''ok'' [Some g])))
            | _ \<Rightarrow> bindE (ensureLodashImport root) (\<lambda>r. Inl TypeError))
      else if ''property'' \<in> set props
      then (case parentArguments p of
              None \<Rightarrow> Inl TypeError
            | Some as \<Rightarrow>
                (case as of
                   [a0, a1] \<Rightarrow>
                     replaceParentWith p root
                       (assertCall ''strictEqual'' [Some (MemberExpression originalValue a0 True), Some a1])
                 | _ \<Rightarrow> replaceParentWith p root
                          (assertCall ''ok'' [Some (hasOwnPropertyCall (originalValue # as))])))
      else Inr None)"

text \<open>Lines 1158-1216.\<close>

definition throwFilter :: "path \<Rightarrow> bool" where
  "throwFilter p =
     (case node p of
        CallExpression (MemberExpression ob prop c) as \<Rightarrow>
          (name_of prop = Some ''throw'' \<or> name_of prop = Some ''throwError'')
          \<and> ''should'' \<in> set (chainProps ob)
      | _ \<Rightarrow> False)"

definition throwCallback :: "path \<Rightarrow> node \<Rightarrow> error + node option" where
  "throwCallback p root =
     (case node p of
        CallExpression (MemberExpression ob prop c) as \<Rightarrow>
          (let fnToTest = (case fst (walkToShould ob) of None \<Rightarrow> ob | Some v \<Rightarrow> v);
               name = (if snd (walkToShould ob) then ''doesNotThrow'' else ''throws'')
           in case as of
                [] \<Rightarrow> replaceWith p root (assertCall name [Some fnToTest])
              | errorMessage # others \<Rightarrow>
                  replaceWith p root (assertCall name [Some fnToTest, Some errorMessage]))
      | _ \<Rightarrow> Inl TypeError)"

text \<open>Lines 1219-1248.\<close>

definition shouldThrowErrorFilter :: "path \<Rightarrow> bool" where
  "shouldThrowErrorFilter p =
     (case node p of
        CallExpression (MemberExpression ob prop c) as \<Rightarrow>
          name_of prop = Some ''throwError''
          \<and> (case ob of CallExpression callee2 as2 \<Rightarrow> name_of callee2 = Some ''should'' | _ \<Rightarrow> False)
      | _ \<Rightarrow> False)"

definition shouldThrowErrorCallback :: "path \<Rightarrow> node \<Rightarrow> error + node option" where
  "shouldThrowErrorCallback p root =
     (case node p of
        CallExpression (MemberExpression ob prop c) as \<Rightarrow>
          (case as of
             [] \<Rightarrow> Inl TypeError
           | errorMessage # others \<Rightarrow>
               replaceWith p root
                 (assertCall ''throws''
                    [nth_opt (arguments_of ob) 0,
                     Some (Literal (VStr (''TypeError: '' @ toStr (value_of errorMessage))))]))
      | _ \<Rightarrow> Inl TypeError)"

text \<open>Lines 1251-1336.\<close>

definition propertiesFilter :: "path \<Rightarrow> bool" where
  "propertiesFilter p =
     (case node p of
        CallExpression (MemberExpression ob prop c) as \<Rightarrow>
          name_of prop = Some ''properties'' \<and> ''should'' \<in> set (chainProps ob)
      | _ \<Rightarrow> False)"

text \<open>Lines 1289-1291: \<open>reduce\<close> without an initial value, a TypeError on the empty array.\<close>

fun andAll :: "node list \<Rightarrow> error + node" where
  "andAll [] = Inl TypeError"
| "andAll (c # cs) = Inr (foldl (\<lambda>acc check. LogicalExpression ''&&'' acc check) c cs)"

definition objectFromKeys :: "node \<Rightarrow> node \<Rightarrow> node" where
  "objectFromKeys ob props =
     CallExpression (MemberExpression (Identifier ''Object'') (Identifier ''fromEntries'') False)
       [CallExpression
          (MemberExpression
             (CallExpression (MemberExpression (Identifier ''Object'') (Identifier ''keys'') False) [props])
             (Identifier ''map'') False)
          [ArrowFunctionExpression [Identifier ''key'']
             (ArrayExpression [Identifier ''key'', MemberExpression ob (Identifier ''key'') True])]]"

definition propertiesCallback :: "path \<Rightarrow> node \<Rightarrow> error + node option" where
  "propertiesCallback p root =
     (case node p of
        CallExpression (MemberExpression ob prop c) as \<Rightarrow>
          (case object_of ob of
             None \<Rightarrow> Inl TypeError
           | Some ob2 \<Rightarrow>
               (case nth_opt as 0 of
                  Some (ArrayExpression elements) \<Rightarrow>
                    replaceWith p root
                      (bindE (mapE (\<lambda>e. bindE (requireNode (object_of ob2)) (\<lambda>obj.
                                           Inr (hasOwnPropertyCall [obj, e]))) elements) (\<lambda>propChecks.
                       bindE (andAll propChecks) (\<lambda>combinedCheck.
                         assertCall ''ok'' [Some combinedCheck])))
                | Some props \<Rightarrow>
                    replaceWith p root
                      (bindE (requireNode (object_of ob2)) (\<lambda>obj.
                         assertCall ''deepStrictEqual'' [Some (objectFromKeys obj props), Some props]))
                | None \<Rightarrow> replaceWith p root (Inl BuilderError)))
      | _ \<Rightarrow> Inl TypeError)"

text \<open>Lines 1339-1392.\<close>

definition nullFilter :: "path \<Rightarrow> bool" where
  "nullFilter p =
     (case node p of
        MemberExpression ob prop c \<Rightarrow>
          name_of prop = Some ''Null'' \<and> ''should'' \<in> set (chainProps (node p))
      | _ \<Rightarrow> False)"

text \<open>Lines 1387-1390: how many of the nearest ancestors are member expressions.\<close>

fun memberAncestors :: "node list \<Rightarrow> nat" where
  "memberAncestors [] = 0"
| "memberAncestors (a # as) = (if isMember a then Suc (memberAncestors as) else 0)"

definition nullCallback :: "path \<Rightarrow> node \<Rightarrow> error + node option" where
  "nullCallback p root =
     bindE (bindE (requireNode (fst (walkToShould (node p)))) (\<lambda>originalValue.
              assertCall (if ''not'' \<in> set (chainProps (node p)) then ''notStrictEqual'' else ''strictEqual'')
                [Some originalValue, Some (Literal VNull)])) (\<lambda>assertNode.
       Inr (Some (replaceAt root (take (length (pos p) - memberAncestors (ancestors p)) (pos p)) assertNode)))"

subsection \<open>The transform (lines 567-1519)\<close>

definition transformShould2 :: "string \<Rightarrow> node \<Rightarrow> error + node" where
  "transformShould2 filePath source =
     bindE (removeAll isShouldOrMochaImport source) (\<lambda>root.
     bindE (ensureImports2 filePath root) (\<lambda>root.
     bindE (forEach variantFilter variantCallback root) (\<lambda>root.
     bindE (forEach equalFilter2 equalCallback2 root) (\<lambda>root.
     bindE (forEach deepEqualFilter2 deepEqualCallback2 root) (\<lambda>root.
     bindE (forEach booleanFilter2 booleanCallback2 root) (\<lambda>root.
     bindE (forEach stringFilter stringCallback root) (\<lambda>root.
     bindE (forEach shouldChainFilter shouldChainCallback2 root) (\<lambda>root.
     bindE (forEach throwFilter throwCallback root) (\<lambda>root.
     bindE (forEach shouldThrowErrorFilter shouldThrowErrorCallback root) (\<lambda>root.
     bindE (forEach propertiesFilter propertiesCallback root) (\<lambda>root.
     bindE (forEach nullFilter nullCallback root) (\<lambda>root.
     bindE (forEach existFilter existCallback root) (\<lambda>root.
     bindE (forEach doesNotThrowFilter doesNotThrowCallback root) (\<lambda>root.
       forEach shouldCallFilter shouldCallCallback root))))))))))))))"

subsection \<open>Example entries\<close>




definition ex3_chains :: "StubReplacement list" where
  "ex3_chains =
     [\<lparr>args = Some [Identifier ''x''], returnValue = Some (Some (NumericLiteral 1))\<rparr>,
      \<lparr>args = None, returnValue = Some (Some (NumericLiteral 2))\<rparr>]"

subsection \<open>Example files for the sinon migration\<close>

text \<open>A test case \<open>it(name, () => { body })\<close> as a statement.\<close>

definition testCase :: "string \<Rightarrow> node list \<Rightarrow> node" where
  "testCase name body = ExpressionStatement
     (CallExpression (Identifier ''it'') [StringLiteral name, ArrowFunctionExpression [] (BlockStatement body)])"

text \<open>
  Example 3 of the spec:
  \<^verbatim>\<open>it('t', () => {
    const s = sandBox.stub(A.prototype, 'm');
    s.withArgs(x).returns(1);
    s.returns(2);
  });\<close>
\<close>

definition stubDecl :: "string \<Rightarrow> node \<Rightarrow> node" where
  "stubDecl v secondArg = VariableDeclaration ''const''
     [VariableDeclarator (Identifier v)
        (Some (CallExpression (MemberExpression (Identifier ''sandBox'') (Identifier ''stub'') False)
           [MemberExpression (Identifier ''A'') (Identifier ''prototype'') False, secondArg]))]"





definition mockMethod :: "string \<Rightarrow> node list \<Rightarrow> node" where
  "mockMethod m body = ExpressionStatement
     (CallExpression (MemberExpression (Identifier ''mock'') (Identifier ''method'') False)
        [TSAsExpression (MemberExpression (Identifier ''A'') (Identifier ''prototype'') False) TSAnyKeyword,
         Literal (VStr m),
         ArrowFunctionExpression [RestElement (Identifier ''args'')] (BlockStatement body)])"

text \<open>
  A stub whose method name cannot be extracted (the second argument is a call):
  \<^verbatim>\<open>it('t', () => {
    const s = sandBox.stub(A.prototype, getName());
    s.returns(1);
  });\<close>
\<close>

definition c7_returns :: node where
  "c7_returns = ExpressionStatement
     (CallExpression (MemberExpression (Identifier ''s'') (Identifier ''returns'') False) [NumericLiteral 1])"

definition c7_file :: node where
  "c7_file = File (Program
     [testCase ''t'' [stubDecl ''s'' (CallExpression (Identifier ''getName'') []), c7_returns]])"

subsection \<open>\<open>afterEach\<close> blocks\<close>




text \<open>The statements \<open>sandBox.restore();\<close> and \<open>sinon.restore();\<close>.\<close>

definition restoreCall :: "string \<Rightarrow> node" where
  "restoreCall ob = CallExpression (MemberExpression (Identifier ob) (Identifier ''restore'') False) []"

definition isRestoreStatement :: "node \<Rightarrow> bool" where
  "isRestoreStatement s =
     (s = ExpressionStatement (restoreCall ''sandBox'') \<or> s = ExpressionStatement (restoreCall ''sinon''))"

text \<open>A statement none of whose nodes is matched by the filter of line 462.\<close>

definition restoreFree :: "node \<Rightarrow> bool" where
  "restoreFree s = (filter isRestoreCall (pathsFrom [] [] s) = [])"

















subsection \<open>Example files for the should migrations\<close>

text \<open>Example 1 of the spec, the statement \<open>x.should.equal(5)\<close>, and the imports both
  migrations put in front of a file that has none.\<close>

definition xShouldEqual5 :: node where
  "xShouldEqual5 = ExpressionStatement (CallExpression
      (MemberExpression (MemberExpression (Identifier ''x'') (Identifier ''should'') False)
         (Identifier ''equal'') False)
      [NumericLiteral 5])"

definition assertStatement :: "string \<Rightarrow> node list \<Rightarrow> node" where
  "assertStatement name as = ExpressionStatement
     (CallExpression (MemberExpression (Identifier ''assert'') (Identifier name) False) as)"

text \<open>A file of the directory \<open>modules/bitgo\<close> with the one statement \<open>foo()\<close>.\<close>

definition bitgoPath :: string where
  "bitgoPath = ''modules/bitgo/test/unit/a.ts''"

definition fooStatement :: node where
  "fooStatement = ExpressionStatement (CallExpression (Identifier ''foo'') [])"

subsection \<open>Files whose import declarations are statements of the program\<close>

definition isImportDeclaration :: "node \<Rightarrow> bool" where
  "isImportDeclaration n = (case n of ImportDeclaration specifiers source \<Rightarrow> True | _ \<Rightarrow> False)"

text \<open>No import declaration stands below the statement \<open>s\<close> (an import declaration is a
  statement of the program, never part of another statement).\<close>

definition importFreeBelow :: "node \<Rightarrow> bool" where
  "importFreeBelow s =
     (filter (\<lambda>p. isImportDeclaration (node p)) (pathsList [] [] 0 (children s)) = [])"

definition importsAtTop :: "node list \<Rightarrow> bool" where
  "importsAtTop body = list_all importFreeBelow body"







section \<open>Properties of the Stub Configuration Aggregator\<close>



lemma chainStatement_matchers:
  "hasMatchers c \<Longrightarrow> \<exists>ms. args c = Some ms \<and> ms \<noteq> [] \<and> chainStatement c =
     Inr (IfStatement (reduceArgs (Literal VNull) 0 ms) (BlockStatement [ReturnStatement (Some (resultOf c))]) None)"
  by (auto simp: hasMatchers_def chainStatement_def resultOf_def split: option.splits)

lemma chainStatement_plain:
  "\<not> hasMatchers c \<Longrightarrow> chainStatement c = returnStatement (rv c)"
  by (auto simp: hasMatchers_def chainStatement_def split: option.splits)

lemma chainStatement_emittable:
  assumes "emittable c"
  shows "\<exists>s. chainStatement c = Inr s"
proof (cases "hasMatchers c")
  case True
  then show ?thesis using chainStatement_matchers[of c] by blast
next
  case False
  then show ?thesis using assms chainStatement_plain[of c]
    by (auto simp: emittable_def returnStatement_def split: option.splits)
qed

lemma mapE_Inr_iff:
  "mapE f xs = Inr ys \<longleftrightarrow> length ys = length xs \<and> (\<forall>i<length xs. f (xs ! i) = Inr (ys ! i))"
proof (induction xs arbitrary: ys)
  case Nil
  then show ?case by auto
next
  case (Cons x xs)
  show ?case
  proof (cases ys)
    case Nil
    then show ?thesis by (auto split: sum.splits)
  next
    case (Cons y ys')
    then show ?thesis using Cons.IH[of ys']
      by (auto split: sum.splits simp: nth_Cons split: nat.splits)
  qed
qed

lemma mapE_total:
  "list_all (\<lambda>x. \<exists>y. f x = Inr y) xs \<Longrightarrow> \<exists>ys. mapE f xs = Inr ys"
  by (induction xs) (auto split: sum.splits)




lemma mockImplBody_Inr:
  "mockImplBody cs = Inr body \<longleftrightarrow>
     (\<exists>ss. mapE chainStatement cs = Inr ss \<and>
       body = ss @ (if list_ex hasMatchers cs then [ReturnStatement (Some undefinedId)] else []))"
  by (cases "mapE chainStatement cs") (auto simp: mockImplBody_def)



text \<open>
  Claim C2, as stated, fails: for the entries of Example 3 (one with a matcher, one without)
  the fallback \<open>return undefined\<close> is appended although not every entry has matchers.
\<close>

theorem fallback_with_unconditional_entry:
  "mockImplBody ex3_chains =
     Inr [IfStatement
            (LogicalExpression ''&&'' argsLengthTest (argTest 0 (Identifier ''x'')))
            (BlockStatement [ReturnStatement (Some (NumericLiteral 1))]) None,
          ReturnStatement (Some (NumericLiteral 2)),
          ReturnStatement (Some (Identifier ''undefined''))]
   \<and> \<not> list_all hasMatchers ex3_chains"
  by (simp add: ex3_chains_def mockImplBody_def chainStatement_def returnStatement_def rv_def
      hasMatchers_def undefinedId_def)

text \<open>
  Claim C2, amended. Every entry without matchers gets an unconditional return statement, at
  its own position (there may be several such entries), and the fallback
  \<open>return undefined\<close> is appended if and only if at least one entry has matchers
  (line 371 tests \<open>some\<close>, under the comment "Only add default return if we have conditional
  chains").
\<close>

theorem fallback_iff_some_matchers:
  assumes "list_all emittable cs"
  shows "\<exists>ss. mockImplBody cs =
             Inr (ss @ (if list_ex hasMatchers cs then [ReturnStatement (Some undefinedId)] else []))
         \<and> length ss = length cs
         \<and> (\<forall>i < length cs. \<not> hasMatchers (cs ! i) \<longrightarrow> ss ! i = ReturnStatement (rv (cs ! i)))"
proof -
  have "list_all (\<lambda>x. \<exists>y. chainStatement x = Inr y) cs"
    using assms by (induction cs) (auto simp: chainStatement_emittable)
  then obtain ss where ss: "mapE chainStatement cs = Inr ss" using mapE_total by blast
  then have len: "length ss = length cs"
    and nth: "\<forall>i<length cs. chainStatement (cs ! i) = Inr (ss ! i)"
    unfolding mapE_Inr_iff by blast+
  have "\<forall>i < length cs. \<not> hasMatchers (cs ! i) \<longrightarrow> ss ! i = ReturnStatement (rv (cs ! i))"
  proof (intro allI impI)
    fix i assume i: "i < length cs" and nm: "\<not> hasMatchers (cs ! i)"
    from assms i have "emittable (cs ! i)" by (simp add: list_all_length)
    with nm obtain e where e: "rv (cs ! i) = Some e" by (auto simp: emittable_def)
    from nth i have "chainStatement (cs ! i) = Inr (ss ! i)" by simp
    with chainStatement_plain[OF nm] e show "ss ! i = ReturnStatement (rv (cs ! i))"
      by (simp add: returnStatement_def)
  qed
  with ss len show ?thesis by (auto simp: mockImplBody_Inr)
qed

theorem fallback_iff_some_matchers_witness:
  "list_all emittable ex3_chains \<and> list_ex hasMatchers ex3_chains
   \<and> (\<exists>ss. mockImplBody ex3_chains = Inr (ss @ [ReturnStatement (Some undefinedId)])
          \<and> ss ! 1 = ReturnStatement (Some (NumericLiteral 2)))"
proof -
  have h: "list_all emittable ex3_chains"
    by (simp add: ex3_chains_def emittable_def hasMatchers_def rv_def)
  have e: "list_ex hasMatchers ex3_chains" by (simp add: ex3_chains_def hasMatchers_def)
  have n: "\<not> hasMatchers (ex3_chains ! 1)" by (simp add: ex3_chains_def hasMatchers_def)
  have r: "rv (ex3_chains ! 1) = Some (NumericLiteral 2)" by (simp add: ex3_chains_def rv_def)
  have l: "(1::nat) < length ex3_chains" by (simp add: ex3_chains_def)
  from fallback_iff_some_matchers[OF h] obtain ss where
    a: "mockImplBody ex3_chains =
          Inr (ss @ (if list_ex hasMatchers ex3_chains then [ReturnStatement (Some undefinedId)] else []))"
    and b: "\<forall>i < length ex3_chains. \<not> hasMatchers (ex3_chains ! i)
              \<longrightarrow> ss ! i = ReturnStatement (rv (ex3_chains ! i))" by blast
  from b l n r have "ss ! 1 = ReturnStatement (Some (NumericLiteral 2))" by metis
  with a e h show ?thesis by auto
qed






section \<open>Properties of the sinon migration\<close>





lemma c7_collect:
  "map_sum id warnings (collectStubs c7_file c7_file) =
     Inr [(MemberExpression (Identifier ''A'') (Identifier ''prototype'') False,
           CallExpression (Identifier ''getName'') [])]"
  by code_simp

text \<open>
  Claim C7 fails on the code. For \<open>const s = sandBox.stub(A.prototype, getName())\<close> followed
  by \<open>s.returns(1)\<close> the first pass logs its warning and stores no chain, but the second
  pass has no such guard (line 281 asks only for two arguments and an \<open>object\<close> on the
  first): it replaces the declaration by \<open>mock.method(A.prototype as any, '', (...args) => {})\<close>
  and removes \<open>s.returns(1)\<close>.
\<close>

theorem unresolved_stub_is_rewritten:
  "transformSinon c7_file = Inr (File (Program [testCase ''t'' [mockMethod [] []]]))"
  by code_simp










section \<open>Properties of the restore pass\<close>




lemma isRestoreCall_node: "isRestoreCall p = isRestoreCall (Path [] (node p) [])"
  by (simp add: isRestoreCall_def)





lemma restore_statement_paths:
  "isRestoreStatement r \<Longrightarrow>
   filter isRestoreCall (pathsFrom ps anc r) = [Path (ps @ [0]) (hd (children r)) (r # anc)]"
  by (auto simp: isRestoreStatement_def restoreCall_def isRestoreCall_def isIdMemberCall_def pathsFrom.simps)

lemma restore_not_free: "isRestoreStatement r \<Longrightarrow> \<not> restoreFree r"
  using restore_statement_paths[of r "[]" "[]"] by (simp add: restoreFree_def)






























section \<open>Properties of the should migrations\<close>

lemma second_migration_equal:
  "transformShould2 ''test/a.ts'' (File (Program [xShouldEqual5])) =
     Inr (File (Program [nodeAssertImport, nodeTestImport [''describe'', ''it''],
                         assertStatement ''strictEqual'' [Identifier ''x'', NumericLiteral 5]]))"
  by code_simp

text \<open>
  Claim C6 fails on the first migration: \<open>x.should.equal(5)\<close> becomes
  \<open>assert.equal(x, 5)\<close> there (line 179 picks \<open>equal\<close> or \<open>notEqual\<close>), not
  \<open>assert.strictEqual(x, 5)\<close>. The second migration (line 754) and the \<open>should(x).equal(y)\<close>
  rule of the first (line 523) build \<open>assert.strictEqual\<close>.
\<close>

theorem first_migration_equal:
  "transformShould (File (Program [xShouldEqual5])) =
     Inr (File (Program [nodeAssertImport, nodeTestImport [''describe'', ''it''],
                         assertStatement ''equal'' [Identifier ''x'', NumericLiteral 5]]))"
  by code_simp

text \<open>
  Claim C5 fails on the second migration for a file under \<open>modules/bitgo/\<close> that imports no
  assert module. The first run puts \<open>import assert = require('assert')\<close> in front, built as
  an expression statement; the test of lines 624-630 looks for import declarations only,
  so the second run puts the same statement in front again. This holds for the tree the
  first run returns and for the tree its printed text parses to, where the statement is a
  \<open>TSImportEqualsDeclaration\<close>.
\<close>

theorem second_run_inserts_assert_again:
  "transformShould2 bitgoPath (File (Program [fooStatement])) =
     Inr (File (Program [requireAssert, nodeTestImport [''describe'', ''it''], fooStatement]))
   \<and> transformShould2 bitgoPath
         (File (Program [requireAssert, nodeTestImport [''describe'', ''it''], fooStatement])) =
     Inr (File (Program [requireAssert, requireAssert, nodeTestImport [''describe'', ''it''], fooStatement]))
   \<and> transformShould2 bitgoPath
         (File (Program [TSImportEqualsDeclaration ''assert'' ''assert'',
                         nodeTestImport [''describe'', ''it''], fooStatement])) =
     Inr (File (Program [requireAssert, TSImportEqualsDeclaration ''assert'' ''assert'',
                         nodeTestImport [''describe'', ''it''], fooStatement]))"
  by code_simp

section \<open>Properties of the Import Normalizer\<close>
























lemma importsAtTop_append: "importsAtTop (xs @ ys) \<longleftrightarrow> importsAtTop xs \<and> importsAtTop ys"
  by (simp add: importsAtTop_def)








end
